theory Spec2Isabelle
  imports Complex_Main
begin

section \<open>The environment of \<open>performance.py\<close>\<close>

text \<open>
  The module talks to a file system, a Redis store, a clock and a logger. Each is made an
  explicit part of the state. A Python exception is a value of type \<open>exn\<close>; a function
  that can raise returns \<open>exn + 'a\<close>, with \<open>Inl\<close> for the exception.
\<close>

type_synonym path = string
type_synonym bytes = string

text \<open>Timestamps are naive UTC datetimes, counted in microseconds since 0001-01-01T00:00:00.\<close>

type_synonym datetime = int

datatype exn =
    FileNotFoundError path
  | PermissionError path
  | RedisError string
  | KeyError string
  | OverflowError
  | ValueError string
  | JobError string

fun exn_str :: "exn \<Rightarrow> string" where
  "exn_str (FileNotFoundError p) =
     ''[Errno 2] No such file or directory: '' @ [CHR 0x27] @ p @ [CHR 0x27]"
| "exn_str (PermissionError p) =
     ''[Errno 13] Permission denied: '' @ [CHR 0x27] @ p @ [CHR 0x27]"
| "exn_str (RedisError m) = m"
| "exn_str (KeyError k) = k"
| "exn_str OverflowError = ''date value out of range''"
| "exn_str (ValueError m) = m"
| "exn_str (JobError m) = m"

datatype log_record = Error string | Warning string | Info string

text \<open>
  A file on disk: its bytes, whether \<open>open(path, 'rb')\<close> may read it and whether
  \<open>os.unlink\<close> may remove it (a file in a read-only directory cannot be removed).
\<close>

record file_entry =
  content :: bytes
  readable :: bool
  removable :: bool

text \<open>
  One entry of the Redis list \<open>bot:metrics\<close>, as \<open>json.loads\<close> and
  \<open>datetime.fromisoformat\<close> read it back. \<open>Unparsable\<close> stands for every entry on
  which the inner \<open>try\<close> of \<open>get_metrics_summary\<close> raises: text that is not JSON,
  no \<open>timestamp\<close> key, a malformed or timezone-aware timestamp. In a parsed entry
  the keys \<open>name\<close> and \<open>value\<close> may still be missing (\<open>None\<close>); a value that is not a
  number is \<open>None\<close> as well, since \<open>sum\<close> raises on it just as the lookup of a missing
  key does. A value is a Python number, an int or a finite float, and so a real number;
  what Python's arithmetic makes of such numbers is not computed here, see
  \<open>get_metrics_summary\<close>.
\<close>

record metric =
  name :: "string option"
  val :: "real option"
  timestamp :: datetime
  tags :: "(string \<times> string) list"

datatype entry = Unparsable | Parsed metric

text \<open>
  The Redis store: string keys with their time-to-live, lists, and \<open>fault\<close>, the error
  that every command raises while the store cannot be reached.
\<close>

record redis_store =
  strings :: "string \<rightharpoonup> bytes \<times> int"
  lists :: "string \<Rightarrow> entry list"
  fault :: "string option"

record world =
  files :: "path \<rightharpoonup> file_entry"
  redis :: redis_store
  time_time :: string
  logged :: "log_record list"

definition logger :: "log_record \<Rightarrow> world \<Rightarrow> world" where
  "logger r w = w\<lparr>logged := logged w @ [r]\<rparr>"

subsection \<open>File system calls\<close>

definition open_read :: "world \<Rightarrow> path \<Rightarrow> exn + bytes" where
  "open_read w p =
     (case files w p of
        None \<Rightarrow> Inl (FileNotFoundError p)
      | Some f \<Rightarrow> if readable f then Inr (content f) else Inl (PermissionError p))"

definition os_path_exists :: "world \<Rightarrow> path \<Rightarrow> bool" where
  "os_path_exists w p = (files w p \<noteq> None)"

definition os_unlink :: "world \<Rightarrow> path \<Rightarrow> exn + world" where
  "os_unlink w p =
     (case files w p of
        None \<Rightarrow> Inl (FileNotFoundError p)
      | Some f \<Rightarrow> if removable f then Inr (w\<lparr>files := (files w)(p := None)\<rparr>)
                  else Inl (PermissionError p))"

subsection \<open>Redis commands\<close>

definition redis_get :: "redis_store \<Rightarrow> string \<Rightarrow> exn + bytes option" where
  "redis_get r k =
     (case fault r of
        Some m \<Rightarrow> Inl (RedisError m)
      | None \<Rightarrow> Inr (map_option fst (strings r k)))"

text \<open>\<open>SETEX\<close> rejects a time-to-live that is not positive.\<close>

definition redis_setex :: "redis_store \<Rightarrow> string \<Rightarrow> int \<Rightarrow> bytes \<Rightarrow> exn + redis_store" where
  "redis_setex r k t v =
     (case fault r of
        Some m \<Rightarrow> Inl (RedisError m)
      | None \<Rightarrow> if t \<le> 0 then Inl (RedisError ''invalid expire time in setex'')
                else Inr (r\<lparr>strings := (strings r)(k \<mapsto> (v, t))\<rparr>))"

definition redis_ping :: "redis_store \<Rightarrow> exn + unit" where
  "redis_ping r = (case fault r of Some m \<Rightarrow> Inl (RedisError m) | None \<Rightarrow> Inr ())"

text \<open>\<open>LPUSH\<close> puts the new element at the head of the list.\<close>

definition redis_lpush :: "redis_store \<Rightarrow> string \<Rightarrow> entry \<Rightarrow> exn + redis_store" where
  "redis_lpush r k e =
     (case fault r of
        Some m \<Rightarrow> Inl (RedisError m)
      | None \<Rightarrow> Inr (r\<lparr>lists := (lists r)(k := e # lists r k)\<rparr>))"

text \<open>
  \<open>LTRIM key start stop\<close> keeps the elements at the indices \<open>start\<close> to \<open>stop\<close>, both
  ends included (the indices used by the module are not negative).
\<close>

definition redis_ltrim :: "redis_store \<Rightarrow> string \<Rightarrow> nat \<Rightarrow> nat \<Rightarrow> exn + redis_store" where
  "redis_ltrim r k start stop =
     (case fault r of
        Some m \<Rightarrow> Inl (RedisError m)
      | None \<Rightarrow> Inr (r\<lparr>lists := (lists r)(k := drop start (take (Suc stop) (lists r k)))\<rparr>))"

text \<open>\<open>LRANGE key 0 -1\<close>: the whole list.\<close>

definition redis_lrange_all :: "redis_store \<Rightarrow> string \<Rightarrow> exn + entry list" where
  "redis_lrange_all r k =
     (case fault r of Some m \<Rightarrow> Inl (RedisError m) | None \<Rightarrow> Inr (lists r k))"

section \<open>ImageCache\<close>

record image_cache =
  ttl :: int
  cache_hits :: int
  cache_misses :: int

text \<open>
  \<open>_get_image_hash\<close>. The digest \<open>hashlib.md5(...).hexdigest()\<close> is a parameter. When the
  file cannot be read, the hash is taken of the current time instead.
\<close>

definition get_image_hash :: "(bytes \<Rightarrow> string) \<Rightarrow> world \<Rightarrow> path \<Rightarrow> string \<times> world" where
  "get_image_hash md5_hexdigest w image_path =
     (case open_read w image_path of
        Inr data \<Rightarrow> (md5_hexdigest data, w)
      | Inl e \<Rightarrow>
          (md5_hexdigest (time_time w),
           logger (Error (''Error generating image hash: '' @ exn_str e)) w))"

text \<open>Python's truth value of the reply of \<open>GET\<close>: \<open>None\<close> and \<open>b''\<close> are false.\<close>

fun truthy :: "bytes option \<Rightarrow> bool" where
  "truthy None = False"
| "truthy (Some b) = (b \<noteq> [])"

text \<open>The body of the \<open>try\<close> of \<open>get_cached_result\<close>: it raises where \<open>redis.get\<close> does.\<close>

definition get_cached_result_try ::
  "(bytes \<Rightarrow> string) \<Rightarrow> world \<Rightarrow> image_cache \<Rightarrow> path \<Rightarrow> (exn + bytes option) \<times> world \<times> image_cache"
where
  "get_cached_result_try md5_hexdigest w c image_path =
     (let (image_hash, w1) = get_image_hash md5_hexdigest w image_path;
          cache_key = ''colorized:'' @ image_hash
      in case redis_get (redis w1) cache_key of
           Inl e \<Rightarrow> (Inl e, w1, c)
         | Inr result \<Rightarrow>
             if truthy result
             then (Inr result,
                   logger (Info (''Cache hit for image '' @ take 8 image_hash @ ''...'')) w1,
                   c\<lparr>cache_hits := cache_hits c + 1\<rparr>)
             else (Inr None, w1, c\<lparr>cache_misses := cache_misses c + 1\<rparr>))"

definition get_cached_result ::
  "(bytes \<Rightarrow> string) \<Rightarrow> world \<Rightarrow> image_cache \<Rightarrow> path \<Rightarrow> (exn + bytes option) \<times> world \<times> image_cache"
where
  "get_cached_result md5_hexdigest w c image_path =
     (case get_cached_result_try md5_hexdigest w c image_path of
        (Inl e, w1, c1) \<Rightarrow>
          (Inr None, logger (Error (''Error getting cached result: '' @ exn_str e)) w1, c1)
      | (Inr r, w1, c1) \<Rightarrow> (Inr r, w1, c1))"

definition cache_result_try ::
  "(bytes \<Rightarrow> string) \<Rightarrow> world \<Rightarrow> image_cache \<Rightarrow> path \<Rightarrow> bytes \<Rightarrow> (exn + unit) \<times> world"
where
  "cache_result_try md5_hexdigest w c image_path result_bytes =
     (let (image_hash, w1) = get_image_hash md5_hexdigest w image_path;
          cache_key = ''colorized:'' @ image_hash
      in case redis_setex (redis w1) cache_key (ttl c) result_bytes of
           Inl e \<Rightarrow> (Inl e, w1)
         | Inr r \<Rightarrow>
             (Inr (),
              logger (Info (''Cached result for image '' @ take 8 image_hash @ ''...''))
                (w1\<lparr>redis := r\<rparr>)))"

definition cache_result ::
  "(bytes \<Rightarrow> string) \<Rightarrow> world \<Rightarrow> image_cache \<Rightarrow> path \<Rightarrow> bytes \<Rightarrow> (exn + unit) \<times> world"
where
  "cache_result md5_hexdigest w c image_path result_bytes =
     (case cache_result_try md5_hexdigest w c image_path result_bytes of
        (Inl e, w1) \<Rightarrow> (Inr (), logger (Error (''Error caching result: '' @ exn_str e)) w1)
      | (Inr u, w1) \<Rightarrow> (Inr u, w1))"

record cache_stats =
  stat_cache_hits :: int
  stat_cache_misses :: int
  stat_hit_rate :: real
  stat_total_requests :: int

definition get_cache_stats :: "image_cache \<Rightarrow> cache_stats" where
  "get_cache_stats c =
     (let total_requests = cache_hits c + cache_misses c;
          hit_rate = (if total_requests > 0
                      then real_of_int (cache_hits c) / real_of_int total_requests * 100
                      else 0)
      in \<lparr>stat_cache_hits = cache_hits c, stat_cache_misses = cache_misses c,
          stat_hit_rate = hit_rate, stat_total_requests = total_requests\<rparr>)"

section \<open>ResourceManager\<close>

text \<open>\<open>str(n)\<close> for a natural number: its decimal numeral.\<close>

definition str_digit :: "nat \<Rightarrow> char" where
  "str_digit d = ''0123456789'' ! d"

function str_nat :: "nat \<Rightarrow> string" where
  "str_nat n = (if n < 10 then [str_digit n] else str_nat (n div 10) @ [str_digit (n mod 10)])"
  by pat_completeness auto
termination
  by (relation "measure id") auto

declare str_nat.simps [simp del]

record resource_manager =
  temp_files :: "path set"
  cleanup_interval :: int
  memory_limit_mb :: int

definition register_temp_file :: "resource_manager \<Rightarrow> path \<Rightarrow> resource_manager" where
  "register_temp_file rm file_path = rm\<lparr>temp_files := insert file_path (temp_files rm)\<rparr>"

definition unregister_temp_file :: "resource_manager \<Rightarrow> path \<Rightarrow> resource_manager" where
  "unregister_temp_file rm file_path = rm\<lparr>temp_files := temp_files rm - {file_path}\<rparr>"

text \<open>
  The state of the loop of \<open>cleanup_temp_files\<close>: the world, the manager and
  \<open>cleaned_count\<close>.
\<close>

type_synonym sweep = "world \<times> resource_manager \<times> nat"

text \<open>
  The body of the \<open>try\<close> for one path. \<open>os.unlink\<close> is the only call that raises, and it
  raises before \<open>cleaned_count += 1\<close> and before \<open>self.temp_files.discard(file_path)\<close>.
\<close>

definition cleanup_try :: "path \<Rightarrow> sweep \<Rightarrow> exn + sweep" where
  "cleanup_try file_path s =
     (case s of (w, rm, cleaned_count) \<Rightarrow>
        if os_path_exists w file_path
        then (case os_unlink w file_path of
                Inl e \<Rightarrow> Inl e
              | Inr w1 \<Rightarrow>
                  Inr (w1, rm\<lparr>temp_files := temp_files rm - {file_path}\<rparr>, cleaned_count + 1))
        else Inr (w, rm\<lparr>temp_files := temp_files rm - {file_path}\<rparr>, cleaned_count))"

text \<open>One round of the loop: the \<open>try\<close> and its \<open>except Exception\<close>.\<close>

definition cleanup_round :: "path \<Rightarrow> sweep \<Rightarrow> sweep" where
  "cleanup_round file_path s =
     (case cleanup_try file_path s of
        Inr s1 \<Rightarrow> s1
      | Inl e \<Rightarrow>
          (case s of (w, rm, cleaned_count) \<Rightarrow>
             (logger (Error (''Error cleaning up '' @ file_path @ '': '' @ exn_str e)) w,
              rm, cleaned_count)))"

fun cleanup_loop :: "path list \<Rightarrow> sweep \<Rightarrow> sweep" where
  "cleanup_loop [] s = s"
| "cleanup_loop (file_path # rest) s = cleanup_loop rest (cleanup_round file_path s)"

text \<open>
  \<open>cleanup_temp_files\<close>. The first argument is \<open>list(self.temp_files)\<close>, the snapshot the
  loop runs over: the paths of the tracked set, in the order in which the set yields
  them.
\<close>

definition cleanup_temp_files ::
  "path list \<Rightarrow> world \<Rightarrow> resource_manager \<Rightarrow> (exn + unit) \<times> world \<times> resource_manager"
where
  "cleanup_temp_files snapshot w rm =
     (case cleanup_loop snapshot (w, rm, 0) of
        (w1, rm1, cleaned_count) \<Rightarrow>
          (Inr (),
           (if cleaned_count > 0
            then logger (Info (''Cleaned up '' @ str_nat cleaned_count @ '' temporary files'')) w1
            else w1),
           rm1))"

text \<open>The paths on which the sweep's \<open>os.unlink\<close> raises: present on disk and not removable.\<close>

definition unlink_raises :: "world \<Rightarrow> path \<Rightarrow> bool" where
  "unlink_raises w p = (case files w p of None \<Rightarrow> False | Some f \<Rightarrow> \<not> removable f)"

text \<open>The record that the sweep logs for such a path.\<close>

definition sweep_error :: "path \<Rightarrow> log_record" where
  "sweep_error p = Error (''Error cleaning up '' @ p @ '': '' @ exn_str (PermissionError p))"

section \<open>LoadBalancer\<close>

text \<open>
  \<open>semaphore_value\<close> is the counter of the \<open>asyncio.Semaphore\<close>:
  \<open>acquire\<close> suspends the caller while the counter is zero and decrements it when it
  goes on; \<open>release\<close> increments it.
\<close>

record load_balancer =
  max_concurrent :: int
  semaphore_value :: nat
  active_requests :: int

text \<open>\<open>asyncio.Semaphore\<close> refuses a negative initial value.\<close>

definition load_balancer_init :: "int \<Rightarrow> exn + load_balancer" where
  "load_balancer_init n =
     (if n < 0 then Inl (ValueError ''Semaphore initial value must be >= 0'')
      else Inr \<lparr>max_concurrent = n, semaphore_value = nat n, active_requests = 0\<rparr>)"

text \<open>\<open>None\<close>: the caller cannot go on yet.\<close>

definition semaphore_acquire :: "load_balancer \<Rightarrow> load_balancer option" where
  "semaphore_acquire lb =
     (if semaphore_value lb > 0 then Some (lb\<lparr>semaphore_value := semaphore_value lb - 1\<rparr>)
      else None)"

definition semaphore_release :: "load_balancer \<Rightarrow> load_balancer" where
  "semaphore_release lb = lb\<lparr>semaphore_value := semaphore_value lb + 1\<rparr>"

text \<open>How the awaited \<open>request_func\<close> of one call ends.\<close>

datatype 'a outcome = Returned 'a | Raised exn | Cancelled

text \<open>
  Where one call of \<open>process_request\<close> stands: suspended in \<open>async with self.semaphore\<close>,
  suspended in \<open>await request_func(...)\<close>, or over.
\<close>

datatype 'a call = Waiting | Running | Over "'a outcome"

text \<open>
  \<open>process_request\<close> from entering \<open>async with\<close> to the \<open>await\<close>: no other coroutine runs
  between the acquisition of the permit and \<open>self.active_requests += 1\<close>.
\<close>

definition process_request_enter :: "load_balancer \<Rightarrow> load_balancer option" where
  "process_request_enter lb =
     (case semaphore_acquire lb of
        None \<Rightarrow> None
      | Some lb1 \<Rightarrow> Some (lb1\<lparr>active_requests := active_requests lb1 + 1\<rparr>))"

text \<open>
  \<open>process_request\<close> from the end of the \<open>await\<close> on: the \<open>finally\<close> clause, then the exit
  of \<open>async with\<close>, both run whatever the outcome, which is handed on to the caller.
\<close>

definition process_request_leave :: "load_balancer \<Rightarrow> 'a outcome \<Rightarrow> load_balancer \<times> 'a outcome" where
  "process_request_leave lb out =
     (semaphore_release (lb\<lparr>active_requests := active_requests lb - 1\<rparr>), out)"

text \<open>
  The event loop runs the coroutines one at a time and switches between them at an
  \<open>await\<close> only. An interleaving of concurrent calls is the list of its atomic steps:
  call \<open>i\<close> enters, call \<open>i\<close> leaves with an outcome, or call \<open>i\<close> is cancelled while it still
  waits for the semaphore.
\<close>

datatype 'a event = Enter nat | Leave nat "'a outcome" | GiveUp nat

record 'a balancer_run =
  balancer :: load_balancer
  calls :: "'a call list"

fun step :: "'a event \<Rightarrow> 'a balancer_run \<Rightarrow> 'a balancer_run option" where
  "step (Enter i) s =
     (if i < length (calls s) \<and> calls s ! i = Waiting
      then (case process_request_enter (balancer s) of
              None \<Rightarrow> None
            | Some lb \<Rightarrow> Some (s\<lparr>balancer := lb, calls := (calls s)[i := Running]\<rparr>))
      else None)"
| "step (Leave i out) s =
     (if i < length (calls s) \<and> calls s ! i = Running
      then (case process_request_leave (balancer s) out of
              (lb, res) \<Rightarrow> Some (s\<lparr>balancer := lb, calls := (calls s)[i := Over res]\<rparr>))
      else None)"
| "step (GiveUp i) s =
     (if i < length (calls s) \<and> calls s ! i = Waiting
      then Some (s\<lparr>calls := (calls s)[i := Over Cancelled]\<rparr>)
      else None)"

text \<open>\<open>None\<close>: the list is not an interleaving the program can go through.\<close>

fun run :: "'a event list \<Rightarrow> 'a balancer_run \<Rightarrow> 'a balancer_run option" where
  "run [] s = Some s"
| "run (e # es) s = (case step e s of None \<Rightarrow> None | Some s1 \<Rightarrow> run es s1)"

text \<open>\<open>k\<close> calls of \<open>process_request\<close> are submitted to a new balancer.\<close>

definition submitted :: "load_balancer \<Rightarrow> nat \<Rightarrow> 'a balancer_run" where
  "submitted lb k = \<lparr>balancer = lb, calls = replicate k Waiting\<rparr>"

text \<open>The number of calls inside the region that the semaphore guards.\<close>

definition executing :: "'a balancer_run \<Rightarrow> nat" where
  "executing s = length (filter (\<lambda>c. c = Running) (calls s))"

fun is_over :: "'a call \<Rightarrow> bool" where
  "is_over (Over out) = True"
| "is_over c = False"

text \<open>
  The accounting of the permits: those missing from a semaphore created with \<open>n\<close> are
  held by the calls inside the region, one each, and \<open>active_requests\<close> counts these
  calls.
\<close>

definition accounted :: "nat \<Rightarrow> 'a balancer_run \<Rightarrow> bool" where
  "accounted n s \<longleftrightarrow>
     semaphore_value (balancer s) + executing s = n
     \<and> active_requests (balancer s) = int (executing s)"

section \<open>HealthChecker\<close>

text \<open>
  What the probe of the database does: \<open>async with self.db.pool.acquire() as conn\<close>
  followed by \<open>await conn.fetchval("SELECT 1")\<close> answers or raises.
\<close>

datatype probe = Answers | Breaks exn

text \<open>\<open>pool = None\<close>: the manager has no pool.\<close>

record db_manager =
  pool :: "probe option"

text \<open>
  What \<open>self.model and hasattr(self.model, 'net') and self.model.net\<close> finds: no model, a
  model without the attribute, the truth value of the attribute, or an exception.
\<close>

datatype model_ref = NoModel | NoNetAttribute | Net bool | NetBreaks exn

text \<open>
  A value of the dictionary \<open>components\<close>: a status text, or the dictionary of the system
  readings (\<open>cpu_percent\<close>, \<open>memory_percent\<close>, \<open>status\<close>).
\<close>

datatype component = Text string | Resources real real string

record health =
  snapshot_timestamp :: datetime
  overall_status :: string
  components :: "string \<rightharpoonup> component"

record health_checker =
  db :: "db_manager option"
  model :: model_ref
  last_health_check :: "health option"
  health_status :: string

definition set_component :: "string \<Rightarrow> component \<Rightarrow> health \<Rightarrow> health" where
  "set_component k v h = h\<lparr>components := (components h)(k \<mapsto> v)\<rparr>"

definition degrade :: "health \<Rightarrow> health" where
  "degrade h = h\<lparr>overall_status := ''degraded''\<rparr>"

definition check_database :: "db_manager option \<Rightarrow> health \<Rightarrow> health" where
  "check_database d h =
     (case d of
        None \<Rightarrow> degrade (set_component ''database'' (Text ''unhealthy: no connection'') h)
      | Some m \<Rightarrow>
          (case pool m of
             None \<Rightarrow> degrade (set_component ''database'' (Text ''unhealthy: no connection'') h)
           | Some Answers \<Rightarrow> set_component ''database'' (Text ''healthy'') h
           | Some (Breaks e) \<Rightarrow>
               degrade (set_component ''database'' (Text (''unhealthy: '' @ exn_str e)) h)))"

definition check_redis :: "redis_store \<Rightarrow> health \<Rightarrow> health" where
  "check_redis r h =
     (case redis_ping r of
        Inr u \<Rightarrow> set_component ''redis'' (Text ''healthy'') h
      | Inl e \<Rightarrow> degrade (set_component ''redis'' (Text (''unhealthy: '' @ exn_str e)) h))"

definition check_model :: "model_ref \<Rightarrow> health \<Rightarrow> health" where
  "check_model m h =
     (case m of
        Net True \<Rightarrow> set_component ''model'' (Text ''healthy'') h
      | NetBreaks e \<Rightarrow> degrade (set_component ''model'' (Text (''unhealthy: '' @ exn_str e)) h)
      | _ \<Rightarrow> degrade (set_component ''model'' (Text ''unhealthy: model not loaded'') h))"

text \<open>The readings of \<open>psutil\<close> are arguments.\<close>

definition check_system :: "real \<Rightarrow> real \<Rightarrow> health \<Rightarrow> health" where
  "check_system cpu_percent memory_percent h =
     (let h1 = set_component ''system''
                 (Resources cpu_percent memory_percent
                    (if cpu_percent < 90 \<and> memory_percent < 90 then ''healthy'' else ''warning''))
                 h
      in if cpu_percent > 95 \<or> memory_percent > 95
         then h1\<lparr>overall_status := ''critical''\<rparr>
         else h1)"

text \<open>The snapshot after the three probes, before the system readings are looked at.\<close>

definition probe_components :: "world \<Rightarrow> datetime \<Rightarrow> health_checker \<Rightarrow> health" where
  "probe_components w now hc =
     check_model (model hc)
       (check_redis (redis w)
          (check_database (db hc)
             \<lparr>snapshot_timestamp = now, overall_status = ''healthy'', components = Map.empty\<rparr>))"

definition check_health ::
  "world \<Rightarrow> datetime \<Rightarrow> real \<Rightarrow> real \<Rightarrow> health_checker \<Rightarrow> health \<times> health_checker"
where
  "check_health w now cpu_percent memory_percent hc =
     (let h = check_system cpu_percent memory_percent (probe_components w now hc)
      in (h, hc\<lparr>last_health_check := Some h, health_status := overall_status h\<rparr>))"

section \<open>MetricsCollector\<close>

definition metrics_key :: string where
  "metrics_key = ''bot:metrics''"

text \<open>
  \<open>record_metric\<close>; \<open>now\<close> is \<open>datetime.utcnow()\<close>. An absent or empty \<open>tags\<close> is stored
  as the empty dictionary.
\<close>

definition record_metric_try ::
  "world \<Rightarrow> datetime \<Rightarrow> string \<Rightarrow> real \<Rightarrow> (string \<times> string) list option \<Rightarrow> (exn + unit) \<times> world"
where
  "record_metric_try w now metric_name v tgs =
     (let metric_data = \<lparr>name = Some metric_name, val = Some v, timestamp = now,
                          tags = (case tgs of None \<Rightarrow> [] | Some t \<Rightarrow> t)\<rparr>
      in case redis_lpush (redis w) metrics_key (Parsed metric_data) of
           Inl e \<Rightarrow> (Inl e, w)
         | Inr r1 \<Rightarrow>
             (case redis_ltrim r1 metrics_key 0 10000 of
                Inl e \<Rightarrow> (Inl e, w\<lparr>redis := r1\<rparr>)
              | Inr r2 \<Rightarrow> (Inr (), w\<lparr>redis := r2\<rparr>)))"

definition record_metric ::
  "world \<Rightarrow> datetime \<Rightarrow> string \<Rightarrow> real \<Rightarrow> (string \<times> string) list option \<Rightarrow> (exn + unit) \<times> world"
where
  "record_metric w now metric_name v tgs =
     (case record_metric_try w now metric_name v tgs of
        (Inl e, w1) \<Rightarrow> (Inr (), logger (Error (''Error recording metric: '' @ exn_str e)) w1)
      | (Inr u, w1) \<Rightarrow> (Inr u, w1))"

text \<open>The shared metrics log.\<close>

definition metrics_log :: "world \<Rightarrow> entry list" where
  "metrics_log w = lists (redis w) metrics_key"

text \<open>
  \<open>datetime.utcnow() - timedelta(hours=hours)\<close>: a datetime lies between the years 1 and
  9999, and the subtraction raises \<open>OverflowError\<close> when its result does not (so does
  \<open>timedelta\<close> itself on a number of hours too large for it, whose difference is out of
  that range as well).
\<close>

definition timedelta_hours :: "int \<Rightarrow> int" where
  "timedelta_hours hours = hours * 3600000000"

definition datetime_max :: datetime where
  "datetime_max = 315537897599999999"

definition datetime_sub :: "datetime \<Rightarrow> int \<Rightarrow> exn + datetime" where
  "datetime_sub t d =
     (if 0 \<le> t - d \<and> t - d \<le> datetime_max then Inr (t - d) else Inl OverflowError)"

text \<open>
  The loop that fills \<open>recent_metrics\<close>: an entry on which the inner \<open>try\<close> raises is
  skipped, a parsed one is appended when its timestamp is greater than the cutoff.
\<close>

fun recent_loop :: "datetime \<Rightarrow> entry list \<Rightarrow> metric list \<Rightarrow> metric list" where
  "recent_loop cutoff_time [] recent_metrics = recent_metrics"
| "recent_loop cutoff_time (Unparsable # rest) recent_metrics =
     recent_loop cutoff_time rest recent_metrics"
| "recent_loop cutoff_time (Parsed m # rest) recent_metrics =
     recent_loop cutoff_time rest
       (if timestamp m > cutoff_time then recent_metrics @ [m] else recent_metrics)"

text \<open>
  \<open>[m['value'] for m in recent_metrics if m['name'] == n]\<close>: the lookup of a missing key
  raises \<open>KeyError\<close>.
\<close>

fun values_named :: "string \<Rightarrow> metric list \<Rightarrow> exn + real list" where
  "values_named n [] = Inr []"
| "values_named n (m # ms) =
     (case name m of
        None \<Rightarrow> Inl (KeyError ''name'')
      | Some k \<Rightarrow>
          if k = n
          then (case val m of
                  None \<Rightarrow> Inl (KeyError ''value'')
                | Some v \<Rightarrow>
                    (case values_named n ms of Inl e \<Rightarrow> Inl e | Inr vs \<Rightarrow> Inr (v # vs)))
          else values_named n ms)"

text \<open>
  Python's \<open>max\<close> on a list that is not empty: the first of the greatest elements. The
  comparison of two numbers is exact in Python, also between an int and a float.
\<close>

fun py_max :: "real \<Rightarrow> real list \<Rightarrow> real" where
  "py_max x [] = x"
| "py_max x (y # ys) = py_max (if y > x then y else x) ys"

text \<open>
  A value of the dictionary that \<open>get_metrics_summary\<close> returns: a number that Python's
  arithmetic has computed (a result of \<open>sum\<close> or of \<open>/\<close>), the value of a sample handed
  on as it is (the result of \<open>max\<close>), or an int (the literal \<open>0\<close>, a length).
\<close>

datatype 'r pyvalue = Number 'r | Sample real | Integer int

text \<open>
  Python's arithmetic on the values is not exact: \<open>sum\<close> and \<open>/\<close> round to floats, may
  yield an infinity, and raise \<open>OverflowError\<close> on an int too large for a float. Both are
  arguments of the model: \<open>builtin_sum xs\<close> is what \<open>sum(xs)\<close> does and \<open>truediv t n\<close> what
  \<open>t / n\<close> does for the length \<open>n\<close> of a list, each a raised exception or a number of the
  type \<open>'r\<close>.

  \<open>sum(xs) / len(xs) if xs else 0\<close>:
\<close>

definition sum_over_len ::
  "(real list \<Rightarrow> exn + 'r) \<Rightarrow> ('r \<Rightarrow> nat \<Rightarrow> exn + 'r) \<Rightarrow> real list \<Rightarrow> exn + 'r pyvalue"
where
  "sum_over_len builtin_sum truediv xs =
     (if xs \<noteq> []
      then (case builtin_sum xs of
              Inl e \<Rightarrow> Inl e
            | Inr t \<Rightarrow>
                (case truediv t (length xs) of Inl e \<Rightarrow> Inl e | Inr a \<Rightarrow> Inr (Number a)))
      else Inr (Integer 0))"

text \<open>\<open>sum(xs) if xs else 0\<close>:\<close>

definition sum_or_zero :: "(real list \<Rightarrow> exn + 'r) \<Rightarrow> real list \<Rightarrow> exn + 'r pyvalue" where
  "sum_or_zero builtin_sum xs =
     (if xs \<noteq> []
      then (case builtin_sum xs of Inl e \<Rightarrow> Inl e | Inr t \<Rightarrow> Inr (Number t))
      else Inr (Integer 0))"

text \<open>\<open>max(xs) if xs else 0\<close>:\<close>

definition max_or_zero :: "real list \<Rightarrow> 'r pyvalue" where
  "max_or_zero xs = (case xs of [] \<Rightarrow> Integer 0 | x # rest \<Rightarrow> Sample (py_max x rest))"

text \<open>
  The body of the \<open>try\<close> of \<open>get_metrics_summary\<close>. The entries of the dictionary are
  evaluated in the order in which they are written.
\<close>

definition get_metrics_summary_try ::
  "(real list \<Rightarrow> exn + 'r) \<Rightarrow> ('r \<Rightarrow> nat \<Rightarrow> exn + 'r) \<Rightarrow> world \<Rightarrow> datetime \<Rightarrow> int
     \<Rightarrow> exn + (string \<rightharpoonup> 'r pyvalue)"
where
  "get_metrics_summary_try builtin_sum truediv w now hours =
     (case datetime_sub now (timedelta_hours hours) of
        Inl e \<Rightarrow> Inl e
      | Inr cutoff_time \<Rightarrow>
          (case redis_lrange_all (redis w) metrics_key of
             Inl e \<Rightarrow> Inl e
           | Inr metrics \<Rightarrow>
               (let recent_metrics = recent_loop cutoff_time metrics []
                in if recent_metrics = [] then Inr Map.empty
                   else
                     (case values_named ''processing_time'' recent_metrics of
                        Inl e \<Rightarrow> Inl e
                      | Inr processing_times \<Rightarrow>
                          (case values_named ''request_count'' recent_metrics of
                             Inl e \<Rightarrow> Inl e
                           | Inr request_counts \<Rightarrow>
                               (case sum_over_len builtin_sum truediv processing_times of
                                  Inl e \<Rightarrow> Inl e
                                | Inr avg_processing_time \<Rightarrow>
                                    (case sum_or_zero builtin_sum request_counts of
                                       Inl e \<Rightarrow> Inl e
                                     | Inr total_requests \<Rightarrow>
                                         Inr [''avg_processing_time'' \<mapsto> avg_processing_time,
                                              ''max_processing_time'' \<mapsto>
                                                max_or_zero processing_times,
                                              ''total_requests'' \<mapsto> total_requests,
                                              ''metrics_count'' \<mapsto>
                                                Integer (int (length recent_metrics))])))))))"

definition get_metrics_summary ::
  "(real list \<Rightarrow> exn + 'r) \<Rightarrow> ('r \<Rightarrow> nat \<Rightarrow> exn + 'r) \<Rightarrow> world \<Rightarrow> datetime \<Rightarrow> int
     \<Rightarrow> (exn + (string \<rightharpoonup> 'r pyvalue)) \<times> world"
where
  "get_metrics_summary builtin_sum truediv w now hours =
     (case get_metrics_summary_try builtin_sum truediv w now hours of
        Inl e \<Rightarrow> (Inr Map.empty, logger (Error (''Error getting metrics summary: '' @ exn_str e)) w)
      | Inr d \<Rightarrow> (Inr d, w))"

subsection \<open>The window of a summary\<close>

text \<open>The world with another content of the metrics log.\<close>

definition with_metrics_log :: "world \<Rightarrow> entry list \<Rightarrow> world" where
  "with_metrics_log w es = w\<lparr>redis := (redis w)\<lparr>lists := (lists (redis w))(metrics_key := es)\<rparr>\<rparr>"

text \<open>The samples of a log that are newer than the cutoff, in the order of the log.\<close>

definition in_window :: "datetime \<Rightarrow> entry list \<Rightarrow> metric list" where
  "in_window cutoff es =
     concat (map (\<lambda>e. case e of Unparsable \<Rightarrow> []
                       | Parsed m \<Rightarrow> if cutoff < timestamp m then [m] else []) es)"

text \<open>The values of the samples with a given name.\<close>

definition values_of :: "string \<Rightarrow> metric list \<Rightarrow> real list" where
  "values_of n ms =
     concat (map (\<lambda>m. if name m = Some n then (case val m of None \<Rightarrow> [] | Some v \<Rightarrow> [v])
                      else []) ms)"

text \<open>
  The summary in the words of the specification, for one metric name: the count, the
  average and the maximum of the values with that name in the window, when there are any.
\<close>

definition spec_stats_by_name ::
  "datetime \<Rightarrow> entry list \<Rightarrow> string \<Rightarrow> (nat \<times> real \<times> real) option"
where
  "spec_stats_by_name cutoff es n =
     (let vs = values_of n (in_window cutoff es)
      in if vs = [] then None
         else Some (length vs, sum_list vs / real (length vs), Max (set vs)))"

text \<open>A sample as \<open>record_metric\<close> writes it has a name and a value.\<close>

definition written :: "metric \<Rightarrow> bool" where
  "written m \<longleftrightarrow> name m \<noteq> None \<and> val m \<noteq> None"

section \<open>Concrete states\<close>

definition store_up :: redis_store where
  "store_up = \<lparr>strings = Map.empty, lists = (\<lambda>k. []), fault = None\<rparr>"

definition world_up :: world where
  "world_up =
     \<lparr>files = [''/tmp/in.jpg'' \<mapsto> \<lparr>content = ''abc'', readable = True, removable = True\<rparr>],
      redis = store_up, time_time = ''1700000000.0'', logged = []\<rparr>"

definition world_down :: world where
  "world_down = world_up\<lparr>redis := store_up\<lparr>fault := Some ''Connection refused''\<rparr>\<rparr>"

definition cache_3_4 :: image_cache where
  "cache_3_4 = \<lparr>ttl = 86400, cache_hits = 3, cache_misses = 4\<rparr>"

text \<open>A world where \<open>/tmp/a.jpg\<close> can be removed, \<open>/tmp/b.jpg\<close> cannot, and \<open>/tmp/c.jpg\<close> is gone.\<close>

definition world_locked :: world where
  "world_locked =
     \<lparr>files = [''/tmp/a.jpg'' \<mapsto> \<lparr>content = ''abc'', readable = True, removable = True\<rparr>,
               ''/tmp/b.jpg'' \<mapsto> \<lparr>content = ''def'', readable = True, removable = False\<rparr>],
      redis = store_up, time_time = ''1700000000.0'', logged = []\<rparr>"

definition manager_b :: resource_manager where
  "manager_b = \<lparr>temp_files = {''/tmp/b.jpg''}, cleanup_interval = 300, memory_limit_mb = 2048\<rparr>"

definition manager_abc :: resource_manager where
  "manager_abc =
     \<lparr>temp_files = {''/tmp/a.jpg'', ''/tmp/b.jpg'', ''/tmp/c.jpg''},
      cleanup_interval = 300, memory_limit_mb = 2048\<rparr>"

definition checker_ok :: health_checker where
  "checker_ok =
     \<lparr>db = Some \<lparr>pool = Some Answers\<rparr>, model = Net True,
      last_health_check = None, health_status = ''unknown''\<rparr>"

definition checker_no_db :: health_checker where
  "checker_no_db = checker_ok\<lparr>db := None\<rparr>"

definition balancer_2 :: load_balancer where
  "balancer_2 = \<lparr>max_concurrent = 2, semaphore_value = 2, active_requests = 0\<rparr>"

definition run_two_inside :: "unit balancer_run" where
  "run_two_inside =
     \<lparr>balancer = \<lparr>max_concurrent = 2, semaphore_value = 0, active_requests = 2\<rparr>,
      calls = [Running, Waiting, Running]\<rparr>"

definition run_all_over :: "unit balancer_run" where
  "run_all_over =
     \<lparr>balancer = balancer_2,
      calls = [Over (Returned ()), Over (Raised (JobError ''boom'')), Over Cancelled]\<rparr>"

definition interleaving_3 :: "unit event list" where
  "interleaving_3 =
     [Enter 0, Enter 2, Leave 0 (Returned ()), Enter 1, Leave 2 Cancelled,
      Leave 1 (Raised (JobError ''boom''))]"

text \<open>
  Python's \<open>sum\<close> and \<open>/\<close> where they do not round: the values of the logs below and
  their sums and quotients are small whole numbers, which a float holds exactly, so
  that on these logs Python computes what the two functions return.
\<close>

definition exact_sum :: "real list \<Rightarrow> exn + real" where
  "exact_sum xs = Inr (sum_list xs)"

definition exact_truediv :: "real \<Rightarrow> nat \<Rightarrow> exn + real" where
  "exact_truediv t n = Inr (t / real n)"

text \<open>The number that a value of the dictionary stands for.\<close>

fun pyvalue_real :: "real pyvalue \<Rightarrow> real" where
  "pyvalue_real (Number r) = r"
| "pyvalue_real (Sample v) = v"
| "pyvalue_real (Integer i) = real_of_int i"

text \<open>2024-01-01T12:00:00.\<close>

definition noon :: datetime where
  "noon = 63839707200000000"

definition metric_of :: "string \<Rightarrow> real \<Rightarrow> datetime \<Rightarrow> metric" where
  "metric_of n v t = \<lparr>name = Some n, val = Some v, timestamp = t, tags = []\<rparr>"

text \<open>Three samples of the last three minutes, the newest first, as \<open>LPUSH\<close> leaves them.\<close>

definition log_3 :: "entry list" where
  "log_3 =
     [Parsed (metric_of ''request_count'' 5 (noon - 60000000)),
      Parsed (metric_of ''request_count'' 3 (noon - 120000000)),
      Parsed (metric_of ''processing_time'' 7 (noon - 180000000))]"

definition summary_3 :: "string \<rightharpoonup> real pyvalue" where
  "summary_3 =
     [''avg_processing_time'' \<mapsto> Number 7, ''max_processing_time'' \<mapsto> Sample 7,
      ''total_requests'' \<mapsto> Number 8, ''metrics_count'' \<mapsto> Integer 3]"

text \<open>
  A log with an entry that does not parse, a sample exactly one hour old and a sample
  two hours old.
\<close>

definition log_6 :: "entry list" where
  "log_6 =
     [Parsed (metric_of ''processing_time'' 4 (noon - 60000000)),
      Unparsable,
      Parsed (metric_of ''request_count'' 1 (noon - 120000000)),
      Parsed (metric_of ''processing_time'' 2 (noon - 180000000)),
      Parsed (metric_of ''request_count'' 1 (noon - 3600000000)),
      Parsed (metric_of ''processing_time'' 9 (noon - 7200000000))]"

definition summary_6 :: "string \<rightharpoonup> real pyvalue" where
  "summary_6 =
     [''avg_processing_time'' \<mapsto> Number 3, ''max_processing_time'' \<mapsto> Sample 4,
      ''total_requests'' \<mapsto> Number 1, ''metrics_count'' \<mapsto> Integer 3]"

text \<open>A log that holds 10000 samples.\<close>

definition world_full :: world where
  "world_full =
     with_metrics_log world_up (replicate 10000 (Parsed (metric_of ''request_count'' 1 noon)))"

section \<open>Properties of ImageCache\<close>

lemma redis_get_image_hash: "redis (snd (get_image_hash h w p)) = redis w"
  by (simp add: get_image_hash_def logger_def split: sum.splits)

lemma get_cached_result_raise:
  assumes "redis_get (redis w) (''colorized:'' @ fst (get_image_hash h w p)) = Inl e"
  shows "fst (get_cached_result h w c p) = Inr None"
    and "snd (snd (get_cached_result h w c p)) = c"
  using assms redis_get_image_hash [of h w p]
  by (auto simp: get_cached_result_def get_cached_result_try_def Let_def
      split: prod.splits sum.splits)

lemma get_cached_result_no_raise: "\<exists>r. fst (get_cached_result h w c p) = Inr r"
  by (auto simp: get_cached_result_def split: prod.splits sum.splits)

lemma cache_result_no_raise: "fst (cache_result h w c p b) = Inr ()"
  by (auto simp: cache_result_def split: prod.splits sum.splits)

lemma redis_get_world_down:
  "redis_get (redis world_down) k = Inl (RedisError ''Connection refused'')"
  by (simp add: redis_get_def world_down_def store_up_def)

lemma redis_get_world_up: "redis_get (redis world_up) k = Inr None"
  by (simp add: redis_get_def world_up_def store_up_def)

text \<open>
  C6. When the store raises in \<open>redis.get\<close>, \<open>get_cached_result\<close> returns \<open>None\<close>; it
  never raises, whatever the file, the store and the counters are; and \<open>cache_result\<close>
  never raises either: it returns normally for every input.
\<close>

theorem cache_failures_contained:
  "(redis_get (redis w) (''colorized:'' @ fst (get_image_hash h w p)) = Inl e
      \<longrightarrow> fst (get_cached_result h w c p) = Inr None)
   \<and> (\<exists>r. fst (get_cached_result h w c p) = Inr r)
   \<and> fst (cache_result h w c p b) = Inr ()"
  using get_cached_result_raise(1) get_cached_result_no_raise cache_result_no_raise by blast

theorem cache_failures_contained_witness:
  "redis_get (redis world_down)
      (''colorized:'' @ fst (get_image_hash (\<lambda>b. b) world_down ''/tmp/in.jpg''))
     = Inl (RedisError ''Connection refused'')
   \<and> fst (get_cached_result (\<lambda>b. b) world_down cache_3_4 ''/tmp/in.jpg'') = Inr None
   \<and> fst (cache_result (\<lambda>b. b) world_down cache_3_4 ''/tmp/in.jpg'' ''xyz'') = Inr ()"
  using redis_get_world_down
    cache_failures_contained [of world_down "\<lambda>b. b" "''/tmp/in.jpg''"
      "RedisError ''Connection refused''" cache_3_4 "''xyz''"]
  by simp

text \<open>
  C10. When the store raises in \<open>redis.get\<close>, \<open>get_cached_result\<close> leaves \<open>cache_hits\<close> and
  \<open>cache_misses\<close> as they were, so \<open>get_cache_stats\<close> reports what it reported before;
  when the store answers, \<open>total_requests\<close> grows by one.
\<close>

theorem failed_lookup_not_counted:
  "(redis_get (redis w) (''colorized:'' @ fst (get_image_hash h w p)) = Inl e \<longrightarrow>
      cache_hits (snd (snd (get_cached_result h w c p))) = cache_hits c
      \<and> cache_misses (snd (snd (get_cached_result h w c p))) = cache_misses c
      \<and> get_cache_stats (snd (snd (get_cached_result h w c p))) = get_cache_stats c)
   \<and> (redis_get (redis w) (''colorized:'' @ fst (get_image_hash h w p)) = Inr r \<longrightarrow>
      stat_total_requests (get_cache_stats (snd (snd (get_cached_result h w c p))))
        = stat_total_requests (get_cache_stats c) + 1)"
proof (intro conjI impI)
  assume a: "redis_get (redis w) (''colorized:'' @ fst (get_image_hash h w p)) = Inr r"
  show "stat_total_requests (get_cache_stats (snd (snd (get_cached_result h w c p))))
        = stat_total_requests (get_cache_stats c) + 1"
    using a redis_get_image_hash [of h w p]
    by (auto simp: get_cached_result_def get_cached_result_try_def get_cache_stats_def Let_def
        split: prod.splits sum.splits)
qed (simp_all add: get_cached_result_raise(2))

theorem failed_lookup_not_counted_witness:
  "redis_get (redis world_down)
      (''colorized:'' @ fst (get_image_hash (\<lambda>b. b) world_down ''/tmp/in.jpg''))
     = Inl (RedisError ''Connection refused'')
   \<and> stat_total_requests (get_cache_stats
        (snd (snd (get_cached_result (\<lambda>b. b) world_down cache_3_4 ''/tmp/in.jpg'')))) = 7
   \<and> redis_get (redis world_up)
        (''colorized:'' @ fst (get_image_hash (\<lambda>b. b) world_up ''/tmp/in.jpg'')) = Inr None
   \<and> stat_total_requests (get_cache_stats
        (snd (snd (get_cached_result (\<lambda>b. b) world_up cache_3_4 ''/tmp/in.jpg'')))) = 8"
proof -
  have s: "stat_total_requests (get_cache_stats cache_3_4) = 7"
    by (simp add: get_cache_stats_def cache_3_4_def)
  show ?thesis
    using s redis_get_world_down redis_get_world_up
      failed_lookup_not_counted [of world_down "\<lambda>b. b" "''/tmp/in.jpg''"
        "RedisError ''Connection refused''" cache_3_4 None]
      failed_lookup_not_counted [of world_up "\<lambda>b. b" "''/tmp/in.jpg''"
        "RedisError ''Connection refused''" cache_3_4 None]
    by simp
qed

text \<open>
  The fingerprint depends on the bytes only: two readable files with the same content
  get the same hash, and so the same cache key.
\<close>

lemma get_image_hash_same_content:
  "open_read w1 p1 = Inr data \<Longrightarrow> open_read w2 p2 = Inr data \<Longrightarrow>
     fst (get_image_hash h w1 p1) = fst (get_image_hash h w2 p2)"
  by (simp add: get_image_hash_def)

section \<open>Properties of ResourceManager\<close>

lemma logged_logger [simp]: "logged (logger r w) = logged w @ [r]"
  by (simp add: logger_def)

lemma files_logger [simp]: "files (logger r w) = files w"
  by (simp add: logger_def)

lemma unlink_raises_logger [simp]: "unlink_raises (logger r w) = unlink_raises w"
  by (simp add: unlink_raises_def logger_def fun_eq_iff)

lemma unlink_raises_upd:
  "\<not> unlink_raises w p \<Longrightarrow> unlink_raises (w\<lparr>files := (files w)(p := None)\<rparr>) = unlink_raises w"
  by (auto simp: unlink_raises_def fun_eq_iff split: option.splits)

text \<open>One round either logs the failure and keeps the path, or removes the path.\<close>

lemma cleanup_round_cases:
  "cleanup_round p (w, rm, n) =
     (if unlink_raises w p then (logger (sweep_error p) w, rm, n)
      else (w\<lparr>files := (files w)(p := None)\<rparr>, rm\<lparr>temp_files := temp_files rm - {p}\<rparr>,
            if os_path_exists w p then n + 1 else n))"
  by (auto simp: cleanup_round_def cleanup_try_def os_path_exists_def os_unlink_def
      unlink_raises_def sweep_error_def fun_upd_idem split: option.splits)

lemma cleanup_loop_result:
  "cleanup_loop ps (w, rm, n) = (w1, rm1, n1) \<Longrightarrow>
     temp_files rm1 = temp_files rm - {p \<in> set ps. \<not> unlink_raises w p}
     \<and> logged w1 = logged w @ map sweep_error (filter (unlink_raises w) ps)
     \<and> files w1 = (\<lambda>p. if p \<in> set ps \<and> \<not> unlink_raises w p then None else files w p)"
proof (induction ps arbitrary: w rm n)
  case Nil
  then show ?case by simp
next
  case (Cons p ps)
  show ?case
  proof (cases "unlink_raises w p")
    case True
    with Cons.prems have "cleanup_loop ps (logger (sweep_error p) w, rm, n) = (w1, rm1, n1)"
      by (simp add: cleanup_round_cases)
    from Cons.IH [OF this] True show ?thesis
      by (auto simp: fun_eq_iff)
  next
    case False
    let ?w = "w\<lparr>files := (files w)(p := None)\<rparr>"
    from False Cons.prems have
      "cleanup_loop ps (?w, rm\<lparr>temp_files := temp_files rm - {p}\<rparr>,
          if os_path_exists w p then n + 1 else n) = (w1, rm1, n1)"
      by (simp add: cleanup_round_cases)
    from Cons.IH [OF this] False show ?thesis
      by (auto simp: unlink_raises_upd fun_eq_iff)
  qed
qed

text \<open>
  C1, as the code has it. When \<open>cleanup_temp_files\<close> has run over the tracked set, it has
  returned normally; the tracked set holds exactly the paths whose deletion failed;
  each of these failures is in the log; and every other tracked path is off the disk.
  So the set is empty afterwards exactly when no deletion failed.
\<close>

theorem sweep_keeps_failed_paths:
  "set snapshot = temp_files rm \<Longrightarrow>
     fst (cleanup_temp_files snapshot w rm) = Inr ()
     \<and> temp_files (snd (snd (cleanup_temp_files snapshot w rm)))
         = {p \<in> temp_files rm. unlink_raises w p}
     \<and> (\<forall>p \<in> temp_files rm. unlink_raises w p \<longrightarrow>
           sweep_error p \<in> set (logged (fst (snd (cleanup_temp_files snapshot w rm)))))
     \<and> (\<forall>p \<in> temp_files rm. \<not> unlink_raises w p \<longrightarrow>
           \<not> os_path_exists (fst (snd (cleanup_temp_files snapshot w rm))) p)"
proof -
  assume s: "set snapshot = temp_files rm"
  obtain w1 rm1 n1 where l: "cleanup_loop snapshot (w, rm, 0) = (w1, rm1, n1)"
    by (cases "cleanup_loop snapshot (w, rm, 0)") auto
  note r = cleanup_loop_result [OF l]
  have 1: "fst (cleanup_temp_files snapshot w rm) = Inr ()"
    by (simp add: cleanup_temp_files_def l)
  have 2: "temp_files (snd (snd (cleanup_temp_files snapshot w rm)))
         = {p \<in> temp_files rm. unlink_raises w p}"
    using r s by (auto simp: cleanup_temp_files_def l)
  have 3: "\<forall>p \<in> temp_files rm. unlink_raises w p \<longrightarrow>
           sweep_error p \<in> set (logged (fst (snd (cleanup_temp_files snapshot w rm))))"
    using r s by (auto simp: cleanup_temp_files_def l)
  have 4: "\<forall>p \<in> temp_files rm. \<not> unlink_raises w p \<longrightarrow>
           \<not> os_path_exists (fst (snd (cleanup_temp_files snapshot w rm))) p"
    using r s by (auto simp: cleanup_temp_files_def l os_path_exists_def)
  from 1 2 3 4 show ?thesis by blast
qed

theorem sweep_keeps_failed_paths_witness:
  "set [''/tmp/a.jpg'', ''/tmp/b.jpg'', ''/tmp/c.jpg''] = temp_files manager_abc
   \<and> fst (cleanup_temp_files [''/tmp/a.jpg'', ''/tmp/b.jpg'', ''/tmp/c.jpg'']
            world_locked manager_abc) = Inr ()
   \<and> temp_files (snd (snd (cleanup_temp_files [''/tmp/a.jpg'', ''/tmp/b.jpg'', ''/tmp/c.jpg'']
            world_locked manager_abc))) = {''/tmp/b.jpg''}"
proof -
  have h: "set [''/tmp/a.jpg'', ''/tmp/b.jpg'', ''/tmp/c.jpg''] = temp_files manager_abc"
    by (simp add: manager_abc_def)
  have u: "{p \<in> temp_files manager_abc. unlink_raises world_locked p} = {''/tmp/b.jpg''}"
    by (auto simp: manager_abc_def unlink_raises_def world_locked_def)
  show ?thesis
    using h u sweep_keeps_failed_paths [OF h, of world_locked]
    by simp
qed

text \<open>
  C1, as the claim states it, fails: \<open>/tmp/b.jpg\<close> is tracked and on disk, \<open>os.unlink\<close>
  raises on it, and after the sweep the tracked set still holds it.
\<close>

theorem sweep_empties_counterexample:
  "temp_files (snd (snd (cleanup_temp_files [''/tmp/b.jpg''] world_locked manager_b)))
     = {''/tmp/b.jpg''}
   \<and> temp_files (snd (snd (cleanup_temp_files [''/tmp/b.jpg''] world_locked manager_b))) \<noteq> {}"
  by (simp add: cleanup_temp_files_def cleanup_round_def cleanup_try_def os_path_exists_def
      os_unlink_def world_locked_def manager_b_def)

section \<open>Properties of HealthChecker\<close>

lemma overall_set_component [simp]: "overall_status (set_component k v h) = overall_status h"
  by (simp add: set_component_def)

lemma components_check_system:
  "components (check_system cpu mem h) ''system'' =
     Some (Resources cpu mem (if cpu < 90 \<and> mem < 90 then ''healthy'' else ''warning''))"
  by (simp add: check_system_def set_component_def Let_def)

lemma overall_check_system:
  "overall_status (check_system cpu mem h) =
     (if cpu > 95 \<or> mem > 95 then ''critical'' else overall_status h)"
  by (simp add: check_system_def Let_def)

lemma probe_ok: "overall_status (probe_components world_up 0 checker_ok) = ''healthy''"
  by (simp add: probe_components_def check_model_def check_redis_def check_database_def
      redis_ping_def world_up_def store_up_def checker_ok_def degrade_def)

lemma probe_no_db: "overall_status (probe_components world_up 0 checker_no_db) = ''degraded''"
  by (simp add: probe_components_def check_model_def check_redis_def check_database_def
      redis_ping_def world_up_def store_up_def checker_no_db_def checker_ok_def degrade_def)

text \<open>
  C7. In the snapshot of \<open>check_health\<close>: when the CPU or the memory reading is above 95,
  the overall status is \<open>critical\<close>, whatever the probes of the database, of Redis and of
  the model found; when a reading lies between 90 and 95 (ends included), the \<open>system\<close>
  component has the status \<open>warning\<close>; and when no reading is above 95, the overall status is
  the one that the three probes gave, so a warning alone does not change it.
\<close>

theorem resource_pressure_status:
  "(cpu > 95 \<or> mem > 95 \<longrightarrow> overall_status (fst (check_health w now cpu mem hc)) = ''critical'')
   \<and> ((90 \<le> cpu \<and> cpu \<le> 95) \<or> (90 \<le> mem \<and> mem \<le> 95) \<longrightarrow>
        components (fst (check_health w now cpu mem hc)) ''system''
          = Some (Resources cpu mem ''warning''))
   \<and> (cpu \<le> 95 \<and> mem \<le> 95 \<longrightarrow>
        overall_status (fst (check_health w now cpu mem hc))
          = overall_status (probe_components w now hc))"
  by (auto simp: check_health_def Let_def components_check_system overall_check_system)

theorem resource_pressure_status_witness:
  "overall_status (fst (check_health world_up 0 97 92 checker_no_db)) = ''critical''
   \<and> components (fst (check_health world_up 0 97 92 checker_no_db)) ''system''
        = Some (Resources 97 92 ''warning'')
   \<and> overall_status (fst (check_health world_up 0 50 93 checker_ok)) = ''healthy''
   \<and> components (fst (check_health world_up 0 50 93 checker_ok)) ''system''
        = Some (Resources 50 93 ''warning'')
   \<and> overall_status (fst (check_health world_up 0 95 90 checker_no_db)) = ''degraded''"
  using resource_pressure_status [of 97 92 world_up 0 checker_no_db]
    resource_pressure_status [of 50 93 world_up 0 checker_ok]
    resource_pressure_status [of 95 90 world_up 0 checker_no_db]
    probe_ok probe_no_db
  by simp

section \<open>Properties of LoadBalancer\<close>

lemma count_update:
  "i < length xs \<Longrightarrow>
     length (filter P (xs[i := y])) + (if P (xs ! i) then 1 else 0)
       = length (filter P xs) + (if P y then 1 else 0)"
proof (induction xs arbitrary: i)
  case Nil
  then show ?case by simp
next
  case (Cons x xs)
  then show ?case by (cases i) auto
qed

text \<open>Every step keeps the accounting of the permits.\<close>

lemma step_accounted:
  assumes "step e s = Some s'" and "accounted n s"
  shows "accounted n s'"
proof (cases e)
  case (Enter i)
  with assms(1) have i: "i < length (calls s)" "calls s ! i = Waiting"
    and v: "semaphore_value (balancer s) > 0"
    and s': "s' = s\<lparr>balancer := (balancer s)\<lparr>semaphore_value := semaphore_value (balancer s) - 1,
                       active_requests := active_requests (balancer s) + 1\<rparr>,
                    calls := (calls s)[i := Running]\<rparr>"
    by (auto simp: process_request_enter_def semaphore_acquire_def split: if_splits option.splits)
  from count_update [OF i(1), of "\<lambda>c. c = Running" Running] i(2)
  have "executing s' = executing s + 1"
    by (simp add: executing_def s')
  with assms(2) v show ?thesis
    by (simp add: accounted_def s')
next
  case (Leave i out)
  with assms(1) have i: "i < length (calls s)" "calls s ! i = Running"
    and s': "s' = s\<lparr>balancer := (balancer s)\<lparr>active_requests := active_requests (balancer s) - 1,
                       semaphore_value := semaphore_value (balancer s) + 1\<rparr>,
                    calls := (calls s)[i := Over out]\<rparr>"
    by (auto simp: process_request_leave_def semaphore_release_def split: if_splits)
  from count_update [OF i(1), of "\<lambda>c. c = Running" "Over out"] i(2)
  have "executing s' + 1 = executing s"
    by (simp add: executing_def s')
  with assms(2) show ?thesis
    by (auto simp: accounted_def s')
next
  case (GiveUp i)
  with assms(1) have i: "i < length (calls s)" "calls s ! i = Waiting"
    and s': "s' = s\<lparr>calls := (calls s)[i := Over Cancelled]\<rparr>"
    by (auto split: if_splits)
  from count_update [OF i(1), of "\<lambda>c. c = Running" "Over Cancelled"] i(2)
  have "executing s' = executing s"
    by (simp add: executing_def s')
  with assms(2) show ?thesis
    by (simp add: accounted_def s')
qed

lemma run_accounted: "run es s = Some s' \<Longrightarrow> accounted n s \<Longrightarrow> accounted n s'"
proof (induction es arbitrary: s)
  case Nil
  then show ?case by simp
next
  case (Cons e es)
  then show ?case
    by (auto split: option.splits dest: step_accounted)
qed

lemma submitted_accounted:
  "load_balancer_init n = Inr lb \<Longrightarrow> accounted (nat n) (submitted lb k)"
  by (auto simp: load_balancer_init_def accounted_def submitted_def executing_def split: if_splits)

lemma max_concurrent_init: "load_balancer_init n = Inr lb \<Longrightarrow> max_concurrent lb = n \<and> 0 \<le> n"
  by (auto simp: load_balancer_init_def split: if_splits)

lemma executing_all_over: "list_all is_over cs \<Longrightarrow> filter (\<lambda>c. c = Running) cs = []"
  by (induction cs) auto

lemma load_balancer_init_2: "load_balancer_init 2 = Inr balancer_2"
  by (simp add: load_balancer_init_def balancer_2_def)

lemma submitted_3: "submitted lb 3 = \<lparr>balancer = lb, calls = [Waiting, Waiting, Waiting]\<rparr>"
  by (simp add: submitted_def eval_nat_numeral)

lemma run_two: "run [Enter 0, Enter 2] (submitted balancer_2 3) = Some run_two_inside"
  by (simp add: submitted_3 balancer_2_def run_two_inside_def process_request_enter_def
      semaphore_acquire_def)

text \<open>With both permits taken, the third call cannot enter.\<close>

lemma third_waits: "step (Enter 1) run_two_inside = None"
  by (simp add: run_two_inside_def process_request_enter_def semaphore_acquire_def)

lemma run_interleaving_3: "run interleaving_3 (submitted balancer_2 3) = Some run_all_over"
  by (simp add: interleaving_3_def submitted_3 balancer_2_def run_all_over_def
      process_request_enter_def semaphore_acquire_def process_request_leave_def
      semaphore_release_def)

text \<open>
  C2. After every interleaving of the calls submitted to a balancer created with the
  maximum \<open>n\<close>, the number of calls inside the region that the semaphore guards is at
  most \<open>n\<close>: these calls and the permits left in the semaphore add up to \<open>n\<close>.
\<close>

theorem executing_bounded:
  "load_balancer_init n = Inr lb \<Longrightarrow> run es (submitted lb k) = Some s \<Longrightarrow>
     int (executing s) \<le> max_concurrent lb
     \<and> int (executing s) + int (semaphore_value (balancer s)) = max_concurrent lb"
proof -
  assume i: "load_balancer_init n = Inr lb" and r: "run es (submitted lb k) = Some s"
  from run_accounted [OF r submitted_accounted [OF i]]
  have "semaphore_value (balancer s) + executing s = nat n" by (simp add: accounted_def)
  with max_concurrent_init [OF i] show ?thesis by linarith
qed

theorem executing_bounded_witness:
  "load_balancer_init 2 = Inr balancer_2
   \<and> run [Enter 0, Enter 2] (submitted balancer_2 3) = Some run_two_inside
   \<and> executing run_two_inside = 2
   \<and> int (executing run_two_inside) \<le> max_concurrent balancer_2"
proof -
  have e: "executing run_two_inside = 2"
    by (simp add: executing_def run_two_inside_def)
  show ?thesis
    using e executing_bounded [OF load_balancer_init_2 run_two] load_balancer_init_2 run_two
    by simp
qed

text \<open>
  C3. After every interleaving, the permits missing from the semaphore are those of the
  calls still inside the region, and \<open>active_requests\<close> is their number: a call that is
  over has given its permit back once and has decremented the counter once. So when
  all calls are over, \<open>active_requests\<close> is zero and the semaphore is full again. The
  exit of \<open>process_request\<close> does the same for every outcome of the job, a normal return,
  an exception or a cancellation, and hands the outcome on.
\<close>

theorem slot_released_once:
  "load_balancer_init n = Inr lb \<Longrightarrow> run es (submitted lb k) = Some s \<Longrightarrow>
     int (semaphore_value (balancer s)) = max_concurrent lb - int (executing s)
     \<and> active_requests (balancer s) = int (executing s)
     \<and> (list_all is_over (calls s) \<longrightarrow>
          active_requests (balancer s) = 0
          \<and> int (semaphore_value (balancer s)) = max_concurrent lb)
     \<and> fst (process_request_leave (balancer s) out)
          = (balancer s)\<lparr>active_requests := active_requests (balancer s) - 1,
                          semaphore_value := semaphore_value (balancer s) + 1\<rparr>
     \<and> snd (process_request_leave (balancer s) out) = out"
proof -
  assume i: "load_balancer_init n = Inr lb" and r: "run es (submitted lb k) = Some s"
  from run_accounted [OF r submitted_accounted [OF i]]
  have a: "semaphore_value (balancer s) + executing s = nat n"
    "active_requests (balancer s) = int (executing s)"
    by (simp_all add: accounted_def)
  have o: "list_all is_over (calls s) \<Longrightarrow> executing s = 0"
    by (simp add: executing_def executing_all_over)
  from a o max_concurrent_init [OF i] show ?thesis
    by (auto simp: process_request_leave_def semaphore_release_def)
qed

theorem slot_released_once_witness:
  "load_balancer_init 2 = Inr balancer_2
   \<and> run interleaving_3 (submitted balancer_2 3) = Some run_all_over
   \<and> list_all is_over (calls run_all_over)
   \<and> active_requests (balancer run_all_over) = 0
   \<and> int (semaphore_value (balancer run_all_over)) = max_concurrent balancer_2"
proof -
  have o: "list_all is_over (calls run_all_over)"
    by (simp add: run_all_over_def)
  show ?thesis
    using o slot_released_once [OF load_balancer_init_2 run_interleaving_3, of "Returned ()"]
      load_balancer_init_2 run_interleaving_3
    by simp
qed

section \<open>Properties of MetricsCollector\<close>

lemma recent_loop_in_window: "recent_loop cutoff es acc = acc @ in_window cutoff es"
proof (induction cutoff es acc rule: recent_loop.induct)
  case (1 cutoff_time recent_metrics)
  then show ?case by (simp add: in_window_def)
next
  case (2 cutoff_time rest recent_metrics)
  then show ?case by (simp add: in_window_def)
next
  case (3 cutoff_time m rest recent_metrics)
  then show ?case by (simp add: in_window_def)
qed

lemma values_named_written:
  "list_all written ms \<Longrightarrow> values_named n ms = Inr (values_of n ms)"
  by (induction ms) (auto simp: values_of_def written_def)

lemma py_max_fold: "py_max x xs = fold max xs x"
  by (induction xs arbitrary: x) (auto simp: max_def)

lemma py_max_Max: "py_max x xs = Max (set (x # xs))"
  by (simp only: py_max_fold Max.set_eq_fold)

lemma lrange_with_log:
  "redis_lrange_all (redis w) metrics_key =
     (case fault (redis w) of Some m \<Rightarrow> Inl (RedisError m) | None \<Rightarrow> Inr (metrics_log w))"
  by (simp add: redis_lrange_all_def metrics_log_def split: option.splits)

lemma in_window_set: "set (in_window cutoff es) = {m. Parsed m \<in> set es \<and> cutoff < timestamp m}"
  by (induction es) (auto simp: in_window_def split: entry.splits)

lemma metrics_log_with [simp]: "metrics_log (with_metrics_log w es) = es"
  by (simp add: metrics_log_def with_metrics_log_def)

lemma fault_with [simp]: "fault (redis (with_metrics_log w es)) = fault (redis w)"
  by (simp add: with_metrics_log_def)

lemma fault_world_up [simp]: "fault (redis world_up) = None"
  by (simp add: world_up_def store_up_def)

lemma cutoff_noon: "datetime_sub noon (timedelta_hours 1) = Inr (noon - 3600000000)"
  by (simp add: datetime_sub_def timedelta_hours_def noon_def datetime_max_def)

lemma in_window_log_3:
  "in_window (noon - 3600000000) log_3 =
     [metric_of ''request_count'' 5 (noon - 60000000),
      metric_of ''request_count'' 3 (noon - 120000000),
      metric_of ''processing_time'' 7 (noon - 180000000)]"
  by (simp add: in_window_def log_3_def metric_of_def)

lemma in_window_log_6:
  "in_window (noon - 3600000000) log_6 =
     [metric_of ''processing_time'' 4 (noon - 60000000),
      metric_of ''request_count'' 1 (noon - 120000000),
      metric_of ''processing_time'' 2 (noon - 180000000)]"
  by (simp add: in_window_def log_6_def metric_of_def)

lemma lrange_with_metrics_log:
  "redis_lrange_all (redis (with_metrics_log w es)) metrics_key =
     (case fault (redis w) of Some m \<Rightarrow> Inl (RedisError m) | None \<Rightarrow> Inr es)"
  by (simp add: lrange_with_log split: option.splits)

lemma summary_depends_on_window:
  assumes "in_window (now - timedelta_hours hours) es = in_window (now - timedelta_hours hours) es'"
  shows "fst (get_metrics_summary builtin_sum truediv (with_metrics_log w es) now hours)
       = fst (get_metrics_summary builtin_sum truediv (with_metrics_log w es') now hours)"
proof -
  have "get_metrics_summary_try builtin_sum truediv (with_metrics_log w es) now hours
      = get_metrics_summary_try builtin_sum truediv (with_metrics_log w es') now hours"
    using assms
    by (simp add: get_metrics_summary_try_def datetime_sub_def lrange_with_metrics_log
        recent_loop_in_window split: option.splits)
  then show ?thesis
    by (simp add: get_metrics_summary_def split: sum.splits)
qed

text \<open>The summary never raises: what the body raises is logged and answered by \<open>{}\<close>.\<close>

lemma get_metrics_summary_no_raise:
  "\<exists>d. fst (get_metrics_summary builtin_sum truediv w now hours) = Inr d"
  by (simp add: get_metrics_summary_def split: sum.splits)

lemma in_window_drop:
  "timestamp m \<le> cutoff \<Longrightarrow> in_window cutoff (xs @ Parsed m # ys) = in_window cutoff (xs @ ys)"
  by (simp add: in_window_def)

lemma record_metric_log:
  "fault (redis w) = None \<Longrightarrow>
     metrics_log (snd (record_metric w now n v t)) =
       take 10001 (Parsed \<lparr>name = Some n, val = Some v, timestamp = now,
                            tags = (case t of None \<Rightarrow> [] | Some ts \<Rightarrow> ts)\<rparr> # metrics_log w)"
  by (simp add: record_metric_def record_metric_try_def redis_lpush_def redis_ltrim_def
      metrics_log_def Let_def)

lemma record_metric_bound:
  "length (metrics_log w) \<le> 10001 \<Longrightarrow>
     length (metrics_log (snd (record_metric w now n v t))) \<le> 10001"
  by (cases "fault (redis w)")
    (auto simp: record_metric_def record_metric_try_def redis_lpush_def redis_ltrim_def
      metrics_log_def Let_def logger_def)

text \<open>
  C4. The log can hold more than 10000 samples: \<open>ltrim(key, 0, 10000)\<close> keeps the indices
  0 to 10000, which are 10001 entries. Recording one sample into a log of 10000 leaves
  10001 in the log.
\<close>

theorem record_metric_exceeds_capacity:
  "length (metrics_log world_full) = 10000
   \<and> fst (record_metric world_full (noon + 1) ''request_count'' 1 None) = Inr ()
   \<and> length (metrics_log (snd (record_metric world_full (noon + 1) ''request_count'' 1 None)))
       = 10001"
proof -
  have f: "fault (redis world_full) = None"
    by (simp add: world_full_def)
  have l: "metrics_log world_full = replicate 10000 (Parsed (metric_of ''request_count'' 1 noon))"
    by (simp add: world_full_def)
  have r: "fst (record_metric world_full (noon + 1) ''request_count'' 1 None) = Inr ()"
    using f by (simp add: record_metric_def record_metric_try_def redis_lpush_def
        redis_ltrim_def Let_def)
  show ?thesis
    using r by (simp add: record_metric_log [OF f] l)
qed

lemma values_log_6:
  "values_of ''processing_time'' (in_window (noon - 3600000000) log_6) = [4, 2]"
  "values_of ''request_count'' (in_window (noon - 3600000000) log_6) = [1]"
  by (simp_all add: in_window_log_6 values_of_def metric_of_def)

lemma summary_3_values:
  "summary_3 k = Some v \<Longrightarrow> pyvalue_real v = 7 \<or> pyvalue_real v = 8 \<or> pyvalue_real v = 3"
  by (auto simp: summary_3_def split: if_splits)

text \<open>
  C5, as the code has it. With the store reachable, a window whose start is a valid
  datetime and samples as \<open>record_metric\<close> writes them, \<open>get_metrics_summary\<close> returns the
  empty dictionary when no sample is newer than the start of the window. Otherwise,
  when Python's \<open>sum\<close> and \<open>/\<close> raise nothing on the values concerned, it returns: the
  quotient that Python computes of the sum of the values named \<open>processing_time\<close> by
  their number, and their maximum (the int 0 for both when there are none); the sum
  that Python computes of the values named \<open>request_count\<close> (0 when there are none);
  and the number of all samples in the window.
\<close>

theorem summary_of_window:
  assumes "fault (redis w) = None"
    and "datetime_sub now (timedelta_hours hours) = Inr cutoff"
    and "list_all written (in_window cutoff (metrics_log w))"
    and "values_of ''processing_time'' (in_window cutoff (metrics_log w)) \<noteq> [] \<longrightarrow>
           builtin_sum (values_of ''processing_time'' (in_window cutoff (metrics_log w)))
             = Inr tp
           \<and> truediv tp (length (values_of ''processing_time''
                 (in_window cutoff (metrics_log w)))) = Inr ap"
    and "values_of ''request_count'' (in_window cutoff (metrics_log w)) \<noteq> [] \<longrightarrow>
           builtin_sum (values_of ''request_count'' (in_window cutoff (metrics_log w)))
             = Inr tr"
  shows "fst (get_metrics_summary builtin_sum truediv w now hours) =
     Inr (if in_window cutoff (metrics_log w) = [] then Map.empty
          else [''avg_processing_time'' \<mapsto>
                  (if values_of ''processing_time'' (in_window cutoff (metrics_log w)) = []
                   then Integer 0 else Number ap),
                ''max_processing_time'' \<mapsto>
                  (if values_of ''processing_time'' (in_window cutoff (metrics_log w)) = []
                   then Integer 0
                   else Sample (Max (set (values_of ''processing_time''
                          (in_window cutoff (metrics_log w)))))),
                ''total_requests'' \<mapsto>
                  (if values_of ''request_count'' (in_window cutoff (metrics_log w)) = []
                   then Integer 0 else Number tr),
                ''metrics_count'' \<mapsto>
                  Integer (int (length (in_window cutoff (metrics_log w))))])"
proof -
  let ?r = "in_window cutoff (metrics_log w)"
  let ?p = "values_of ''processing_time'' ?r"
  let ?q = "values_of ''request_count'' ?r"
  have a: "sum_over_len builtin_sum truediv ?p = Inr (if ?p = [] then Integer 0 else Number ap)"
    using assms(4) by (simp add: sum_over_len_def)
  have s: "sum_or_zero builtin_sum ?q = Inr (if ?q = [] then Integer 0 else Number tr)"
    using assms(5) by (simp add: sum_or_zero_def)
  have m: "(max_or_zero ?p :: 'a pyvalue) = (if ?p = [] then Integer 0 else Sample (Max (set ?p)))"
    by (cases ?p) (simp_all add: max_or_zero_def py_max_Max)
  have t: "get_metrics_summary_try builtin_sum truediv w now hours =
     Inr (if ?r = [] then Map.empty
          else [''avg_processing_time'' \<mapsto> (if ?p = [] then Integer 0 else Number ap),
                ''max_processing_time'' \<mapsto>
                  (if ?p = [] then Integer 0 else Sample (Max (set ?p))),
                ''total_requests'' \<mapsto> (if ?q = [] then Integer 0 else Number tr),
                ''metrics_count'' \<mapsto> Integer (int (length ?r))])"
    using assms(1-3)
    by (simp add: get_metrics_summary_try_def lrange_with_log recent_loop_in_window
        values_named_written Let_def a s m)
  show ?thesis
    by (simp add: get_metrics_summary_def t)
qed

theorem summary_of_window_witness:
  "fault (redis (with_metrics_log world_up log_6)) = None
   \<and> datetime_sub noon (timedelta_hours 1) = Inr (noon - 3600000000)
   \<and> list_all written
        (in_window (noon - 3600000000) (metrics_log (with_metrics_log world_up log_6)))
   \<and> exact_sum [4, 2] = Inr 6 \<and> exact_truediv 6 2 = Inr 3 \<and> exact_sum [1] = Inr 1
   \<and> fst (get_metrics_summary exact_sum exact_truediv (with_metrics_log world_up log_6) noon 1)
       = Inr summary_6"
proof -
  let ?w = "with_metrics_log world_up log_6"
  have f: "fault (redis ?w) = None"
    by simp
  have w: "list_all written (in_window (noon - 3600000000) (metrics_log ?w))"
    by (simp add: in_window_log_6 written_def metric_of_def)
  have e: "exact_sum [4, 2] = Inr 6 \<and> exact_truediv 6 2 = Inr 3 \<and> exact_sum [1] = Inr 1"
    by (simp add: exact_sum_def exact_truediv_def)
  have a: "values_of ''processing_time'' (in_window (noon - 3600000000) (metrics_log ?w)) \<noteq> []
      \<longrightarrow> exact_sum (values_of ''processing_time''
             (in_window (noon - 3600000000) (metrics_log ?w))) = Inr 6
          \<and> exact_truediv 6 (length (values_of ''processing_time''
             (in_window (noon - 3600000000) (metrics_log ?w)))) = Inr 3"
    by (simp add: values_log_6 exact_sum_def exact_truediv_def)
  have b: "values_of ''request_count'' (in_window (noon - 3600000000) (metrics_log ?w)) \<noteq> []
      \<longrightarrow> exact_sum (values_of ''request_count''
             (in_window (noon - 3600000000) (metrics_log ?w))) = Inr 1"
    by (simp add: values_log_6 exact_sum_def)
  have r: "fst (get_metrics_summary exact_sum exact_truediv ?w noon 1) = Inr summary_6"
    using summary_of_window [where builtin_sum = exact_sum and truediv = exact_truediv, OF f cutoff_noon w a b]
    by (simp add: in_window_log_6 values_of_def metric_of_def summary_6_def)
  from f w e r cutoff_noon show ?thesis by blast
qed

text \<open>
  C5, as the claim states it, fails: two samples named \<open>request_count\<close>, with the values
  3 and 5, are in the window; their count 2, their average 4 and their maximum 5 are
  not among the numbers of the dictionary that \<open>get_metrics_summary\<close> returns.
\<close>

theorem summary_per_name_counterexample:
  "spec_stats_by_name (noon - 3600000000) log_3 ''request_count'' = Some (2, 4, 5)
   \<and> datetime_sub noon (timedelta_hours 1) = Inr (noon - 3600000000)
   \<and> fst (get_metrics_summary exact_sum exact_truediv (with_metrics_log world_up log_3) noon 1)
       = Inr summary_3
   \<and> 2 \<notin> pyvalue_real ` ran summary_3
   \<and> 4 \<notin> pyvalue_real ` ran summary_3
   \<and> 5 \<notin> pyvalue_real ` ran summary_3"
proof -
  have 1: "spec_stats_by_name (noon - 3600000000) log_3 ''request_count'' = Some (2, 4, 5)"
    by (simp add: spec_stats_by_name_def in_window_log_3 values_of_def metric_of_def)
  have 2: "fst (get_metrics_summary exact_sum exact_truediv (with_metrics_log world_up log_3) noon 1)
      = Inr summary_3"
    by (simp add: get_metrics_summary_def get_metrics_summary_try_def cutoff_noon
        lrange_with_log recent_loop_in_window in_window_log_3 metric_of_def
        sum_over_len_def sum_or_zero_def max_or_zero_def exact_sum_def exact_truediv_def
        summary_3_def)
  have "x \<in> pyvalue_real ` ran summary_3 \<Longrightarrow> x = 7 \<or> x = 8 \<or> x = 3" for x
    using summary_3_values by (auto simp: ran_def)
  then have 3: "2 \<notin> pyvalue_real ` ran summary_3 \<and> 4 \<notin> pyvalue_real ` ran summary_3
      \<and> 5 \<notin> pyvalue_real ` ran summary_3"
    by fastforce
  from 1 2 3 cutoff_noon show ?thesis by blast
qed

text \<open>
  C9. A sample whose timestamp is older than \<open>now - window\<close>, or equal to it, is not among
  the recent samples, and a sample of the log that is newer is; the summary of a log is
  the summary of the log without such an old sample, wherever in the log it stands.
\<close>

theorem window_boundary_excluded:
  "(timestamp m \<le> cutoff \<longrightarrow> m \<notin> set (recent_loop cutoff es []))
   \<and> (Parsed m \<in> set es \<and> cutoff < timestamp m \<longrightarrow> m \<in> set (recent_loop cutoff es []))
   \<and> (timestamp m \<le> now - timedelta_hours hours \<longrightarrow>
        fst (get_metrics_summary builtin_sum truediv
               (with_metrics_log w (xs @ Parsed m # ys)) now hours)
        = fst (get_metrics_summary builtin_sum truediv
               (with_metrics_log w (xs @ ys)) now hours))"
proof (intro conjI impI)
  assume "timestamp m \<le> now - timedelta_hours hours"
  from summary_depends_on_window [OF in_window_drop [OF this]]
  show "fst (get_metrics_summary builtin_sum truediv
               (with_metrics_log w (xs @ Parsed m # ys)) now hours)
        = fst (get_metrics_summary builtin_sum truediv
               (with_metrics_log w (xs @ ys)) now hours)" .
qed (auto simp: recent_loop_in_window in_window_set)

theorem window_boundary_excluded_witness:
  "timestamp (metric_of ''request_count'' 1 (noon - 3600000000)) \<le> noon - timedelta_hours 1
   \<and> metric_of ''request_count'' 1 (noon - 3600000000)
        \<notin> set (recent_loop (noon - timedelta_hours 1) log_6 [])
   \<and> metric_of ''processing_time'' 2 (noon - 180000000)
        \<in> set (recent_loop (noon - timedelta_hours 1) log_6 [])
   \<and> fst (get_metrics_summary exact_sum exact_truediv (with_metrics_log world_up
            ([Parsed (metric_of ''processing_time'' 4 (noon - 60000000))]
              @ Parsed (metric_of ''request_count'' 1 (noon - 3600000000)) # [])) noon 1)
       = fst (get_metrics_summary exact_sum exact_truediv (with_metrics_log world_up
            ([Parsed (metric_of ''processing_time'' 4 (noon - 60000000))] @ [])) noon 1)"
proof -
  have b: "timestamp (metric_of ''request_count'' 1 (noon - 3600000000)) \<le> noon - timedelta_hours 1"
    by (simp add: metric_of_def timedelta_hours_def)
  have n: "Parsed (metric_of ''processing_time'' 2 (noon - 180000000)) \<in> set log_6
      \<and> noon - timedelta_hours 1 < timestamp (metric_of ''processing_time'' 2 (noon - 180000000))"
    by (simp add: log_6_def metric_of_def timedelta_hours_def)
  show ?thesis
    using b n
      window_boundary_excluded [of "metric_of ''request_count'' 1 (noon - 3600000000)"
        "noon - timedelta_hours 1" log_6 noon 1 exact_sum exact_truediv world_up
        "[Parsed (metric_of ''processing_time'' 4 (noon - 60000000))]" "[]"]
      window_boundary_excluded [of "metric_of ''processing_time'' 2 (noon - 180000000)"
        "noon - timedelta_hours 1" log_6 noon 1 exact_sum exact_truediv world_up "[]" "[]"]
    by simp
qed


end
